theory Spec2Isabelle
  imports Complex_Main "HOL-Library.Char_ord" "HOL-Library.List_Lexorder"
    "HOL-Library.Product_Lexorder"
begin

section \<open>Tabular data as pandas holds it\<close>

text \<open>
  A pandas DataFrame is an ordered collection of labelled, typed columns. A column of
  integers cannot hold a missing value; a floating column holds NaN for a missing value
  and an object column holds None. Finite floating values are modelled as exact rationals
  (rounding and overflow are not modelled); \<open>None\<close> is the missing value. A column of
  dates is held as an object column of ISO dates.
\<close>

datatype column =
    IntCol "int list"
  | FloatCol "rat option list"
  | ObjCol "string option list"

type_synonym dataframe = "(string \<times> column) list"

datatype error =
    KeyError "string list"
  | AttributeError string
  | ValueError
  | TypeError

definition col_names :: "dataframe \<Rightarrow> string list" where
  "col_names df = map fst df"

fun col_len :: "column \<Rightarrow> nat" where
  "col_len (IntCol vs) = length vs"
| "col_len (FloatCol vs) = length vs"
| "col_len (ObjCol vs) = length vs"

fun nrows :: "dataframe \<Rightarrow> nat" where
  "nrows [] = 0"
| "nrows ((n, c) # df) = col_len c"

text \<open>Errors propagate as Python exceptions do: the first one ends the call.\<close>

definition bind :: "error + 'a \<Rightarrow> ('a \<Rightarrow> error + 'b) \<Rightarrow> error + 'b" where
  "bind m f = (case m of Inl e \<Rightarrow> Inl e | Inr x \<Rightarrow> f x)"

subsection \<open>Selecting columns by a list of labels\<close>

text \<open>
  \<^verbatim>\<open>df[labels]\<close>: every label must be a column label of the frame, or pandas raises
  KeyError naming the absent labels. The result holds, for each label in the order of
  the list, the columns carrying that label.
\<close>

definition getitem_list :: "dataframe \<Rightarrow> string list \<Rightarrow> error + dataframe" where
  "getitem_list df labels =
     (let missing = [l \<leftarrow> labels. l \<notin> set (col_names df)]
      in if missing \<noteq> [] then Inl (KeyError missing)
         else Inr (concat (map (\<lambda>l. [p \<leftarrow> df. fst p = l]) labels)))"

subsection \<open>The column organizer\<close>

text \<open>
  \<^verbatim>\<open>
  def organize_cols(df, cols):
      data_cols = [c for c in df.columns.tolist() if c not in cols]
      data_cols.sort()
      organized_cols = cols + data_cols
      return(df[organized_cols])
  \<close>
  Python compares strings by code point; on UTF-8 bytes that is the lexicographic order
  of the bytes, which is the order of \<^typ>\<open>string\<close> here.
\<close>

definition organize_cols :: "dataframe \<Rightarrow> string list \<Rightarrow> error + dataframe" where
  "organize_cols df cols =
     (let data_cols = [c \<leftarrow> col_names df. c \<notin> set cols];
          data_cols = sort data_cols;
          organized_cols = cols @ data_cols
      in getitem_list df organized_cols)"

subsection \<open>Dropping columns and rows, casting columns\<close>

text \<open>
  \<^verbatim>\<open>df.drop(labels, axis=1)\<close> removes the columns carrying the labels; a label that is
  not a column raises KeyError.
\<close>

definition drop_cols :: "dataframe \<Rightarrow> string list \<Rightarrow> error + dataframe" where
  "drop_cols df labels =
     (let missing = [l \<leftarrow> labels. l \<notin> set (col_names df)]
      in if missing \<noteq> [] then Inl (KeyError missing)
         else Inr [p \<leftarrow> df. fst p \<notin> set labels])"

fun col_isna :: "column \<Rightarrow> nat \<Rightarrow> bool" where
  "col_isna (IntCol vs) i = False"
| "col_isna (FloatCol vs) i = (vs ! i = None)"
| "col_isna (ObjCol vs) i = (vs ! i = None)"


fun col_take :: "column \<Rightarrow> nat list \<Rightarrow> column" where
  "col_take (IntCol vs) idx = IntCol (map ((!) vs) idx)"
| "col_take (FloatCol vs) idx = FloatCol (map ((!) vs) idx)"
| "col_take (ObjCol vs) idx = ObjCol (map ((!) vs) idx)"

text \<open>
  \<^verbatim>\<open>df.dropna(subset=[...])\<close> keeps the rows that have a value in every column of the
  subset, in their order, and raises KeyError for a label of the subset that is not a
  column. \<open>complete_rows\<close> are the positions of the rows it keeps.
\<close>

definition row_complete :: "dataframe \<Rightarrow> string list \<Rightarrow> nat \<Rightarrow> bool" where
  "row_complete df keys i = (\<forall>(n, c) \<in> set df. n \<in> set keys \<longrightarrow> \<not> col_isna c i)"

definition complete_rows :: "dataframe \<Rightarrow> string list \<Rightarrow> nat list" where
  "complete_rows df keys = [i \<leftarrow> [0..<nrows df]. row_complete df keys i]"

definition dropna :: "dataframe \<Rightarrow> string list \<Rightarrow> error + dataframe" where
  "dropna df keys =
     (let missing = [l \<leftarrow> keys. l \<notin> set (col_names df)]
      in if missing \<noteq> [] then Inl (KeyError missing)
         else Inr (map (\<lambda>(n, c). (n, col_take c (complete_rows df keys))) df))"

text \<open>
  \<^verbatim>\<open>series.astype(int)\<close>: an integer column is unchanged; a floating column is truncated
  towards zero, and raises ValueError when it holds a missing value; an object column is
  converted value by value with Python's \<^verbatim>\<open>int\<close>, which raises TypeError on None and
  ValueError on a string that is not an integer literal (here: an optional sign and
  decimal digits).
\<close>

definition trunc :: "rat \<Rightarrow> int" where
  "trunc r = (if 0 \<le> r then \<lfloor>r\<rfloor> else \<lceil>r\<rceil>)"

definition digit_val :: "char \<Rightarrow> nat option" where
  "digit_val c = (if CHR ''0'' \<le> c \<and> c \<le> CHR ''9'' then Some (of_char c - 48) else None)"

fun digits_val :: "nat \<Rightarrow> string \<Rightarrow> nat option" where
  "digits_val acc [] = Some acc"
| "digits_val acc (c # cs) =
     (case digit_val c of None \<Rightarrow> None | Some d \<Rightarrow> digits_val (10 * acc + d) cs)"

fun int_of_str :: "string \<Rightarrow> int option" where
  "int_of_str [] = None"
| "int_of_str (c # cs) =
     (if c = CHR ''-'' then (if cs = [] then None else map_option (\<lambda>n. - int n) (digits_val 0 cs))
      else if c = CHR ''+'' then (if cs = [] then None else map_option int (digits_val 0 cs))
      else map_option int (digits_val 0 (c # cs)))"

fun astype_int :: "column \<Rightarrow> error + column" where
  "astype_int (IntCol vs) = Inr (IntCol vs)"
| "astype_int (FloatCol vs) =
     (if None \<in> set vs then Inl ValueError else Inr (IntCol (map (\<lambda>v. trunc (the v)) vs)))"
| "astype_int (ObjCol vs) =
     (if None \<in> set vs then Inl TypeError
      else if None \<in> set (map (\<lambda>v. int_of_str (the v)) vs) then Inl ValueError
      else Inr (IntCol (map (\<lambda>v. the (int_of_str (the v))) vs)))"

text \<open>
  \<^verbatim>\<open>df[name] = df.name.astype(int)\<close>: the column is read by attribute (AttributeError
  when the frame has no such column), cast, and stored back in its place.
\<close>

fun astype_int_cols :: "dataframe \<Rightarrow> string \<Rightarrow> error + dataframe" where
  "astype_int_cols [] name = Inr []"
| "astype_int_cols ((n, c) # df) name =
     (if n = name
      then bind (astype_int c) (\<lambda>c'. bind (astype_int_cols df name) (\<lambda>df'. Inr ((n, c') # df')))
      else bind (astype_int_cols df name) (\<lambda>df'. Inr ((n, c) # df')))"

definition astype_int_col :: "string \<Rightarrow> dataframe \<Rightarrow> error + dataframe" where
  "astype_int_col name df =
     (if name \<notin> set (col_names df) then Inl (AttributeError name) else astype_int_cols df name)"

section \<open>Output tables\<close>


text \<open>
  Each EIA 923 output function merges its records with the plant and utility table by
  \<^verbatim>\<open>analysis.merge_on_date_year\<close>, a function of the analysis module, which is not
  part of these sources. Its result, the frame \<^verbatim>\<open>out_df\<close> right after the merge, is the
  parameter \<open>merged\<close> of the definitions below; they follow each function from that
  line to its return.
\<close>

text \<open>\<^verbatim>\<open>generation_fuel_eia923\<close>, from the merge on.\<close>

definition generation_fuel_eia923_out_df :: "dataframe \<Rightarrow> error + dataframe" where
  "generation_fuel_eia923_out_df merged =
     bind (dropna merged [''plant_id'', ''plant_id_pudl'', ''plant_name'',
                          ''operator_id'', ''util_id_pudl'', ''operator_name''])
    (\<lambda>out_df. bind (organize_cols out_df [''report_date'', ''plant_id'', ''plant_id_pudl'',
                          ''plant_name'', ''operator_id'', ''util_id_pudl'', ''operator_name''])
    (\<lambda>out_df. bind (astype_int_col ''plant_id'' out_df)
    (\<lambda>out_df. bind (astype_int_col ''plant_id_pudl'' out_df)
    (\<lambda>out_df. bind (astype_int_col ''operator_id'' out_df)
    (\<lambda>out_df. astype_int_col ''util_id_pudl'' out_df)))))"






subsection \<open>Joins\<close>

text \<open>
  \<^verbatim>\<open>pd.merge(left, right, how=..., on=[...])\<close>. Two rows match when their values in the
  key columns are equal (an integer and a floating value compare as numbers, and pandas
  lets a missing key match a missing key). A left join keeps every left row, in order,
  once per matching right row, or once with nothing from the right when none matches;
  an inner join keeps the matched pairs only. The result has the left columns, then the
  right columns other than the keys; a label the two sides share outside the keys gets
  the suffixes \<^verbatim>\<open>_x\<close> and \<^verbatim>\<open>_y\<close>. An integer column of the right side stays
  integral only when every row found a match: a row without one holds NaN there, which
  turns the column into a floating column.
\<close>

datatype keyval = Num rat | Str string | Missing

fun col_key :: "column \<Rightarrow> nat \<Rightarrow> keyval" where
  "col_key (IntCol vs) i = Num (of_int (vs ! i))"
| "col_key (FloatCol vs) i = (case vs ! i of None \<Rightarrow> Missing | Some r \<Rightarrow> Num r)"
| "col_key (ObjCol vs) i = (case vs ! i of None \<Rightarrow> Missing | Some s \<Rightarrow> Str s)"

definition row_key :: "dataframe \<Rightarrow> string list \<Rightarrow> nat \<Rightarrow> keyval list" where
  "row_key df on i = map (\<lambda>k. case map_of df k of None \<Rightarrow> Missing | Some c \<Rightarrow> col_key c i) on"

fun col_take_opt :: "column \<Rightarrow> nat option list \<Rightarrow> column" where
  "col_take_opt (IntCol vs) idx =
     (if None \<in> set idx then FloatCol (map (map_option (\<lambda>j. of_int (vs ! j))) idx)
      else IntCol (map (\<lambda>j. vs ! the j) idx))"
| "col_take_opt (FloatCol vs) idx =
     FloatCol (map (\<lambda>j. case j of None \<Rightarrow> None | Some j \<Rightarrow> vs ! j) idx)"
| "col_take_opt (ObjCol vs) idx =
     ObjCol (map (\<lambda>j. case j of None \<Rightarrow> None | Some j \<Rightarrow> vs ! j) idx)"

datatype how = Inner | Left

definition merge_pairs ::
  "how \<Rightarrow> dataframe \<Rightarrow> dataframe \<Rightarrow> string list \<Rightarrow> (nat \<times> nat option) list" where
  "merge_pairs how left right on =
     concat (map (\<lambda>i.
       let js = [j \<leftarrow> [0..<nrows right]. row_key right on j = row_key left on i]
       in if js = [] then (case how of Left \<Rightarrow> [(i, None)] | Inner \<Rightarrow> [])
          else map (\<lambda>j. (i, Some j)) js) [0..<nrows left])"

definition pd_merge ::
  "dataframe \<Rightarrow> dataframe \<Rightarrow> how \<Rightarrow> string list \<Rightarrow> error + dataframe" where
  "pd_merge left right how on =
     (let missing = [k \<leftarrow> on. k \<notin> set (col_names left) \<or> k \<notin> set (col_names right)]
      in if missing \<noteq> [] then Inl (KeyError missing)
         else
           let pairs = merge_pairs how left right on;
               overlap = [n \<leftarrow> col_names left. n \<notin> set on \<and> n \<in> set (col_names right)];
               lcols = map (\<lambda>(n, c). (if n \<in> set overlap then n @ ''_x'' else n,
                                        col_take c (map fst pairs))) left;
               rcols = map (\<lambda>(n, c). (if n \<in> set overlap then n @ ''_y'' else n,
                                        col_take_opt c (map snd pairs)))
                           [p \<leftarrow> right. fst p \<notin> set on]
           in Inr (lcols @ rcols))"

subsection \<open>Output functions without aggregation\<close>

text \<open>
  The database is read table by table: \<open>pudl_engine\<close> gives each table as a frame. A
  select of a whole table is that frame; a select of some columns is the frame of those
  columns.
  \<^verbatim>\<open>
  def utilities_eia860(pudl_engine):
      utils_eia860_df = pd.read_sql(utils_eia860_select, pudl_engine)
      utils_eia_df = pd.read_sql(utils_eia_select,  pudl_engine)
      out_df = pd.merge(utils_eia860_df, utils_eia_df, how='left', on=['operator_id', ])
      out_df = out_df.drop(['id'], axis=1)
      first_cols = ['report_year', 'operator_id', 'util_id_pudl', 'operator_name']
      out_df = organize_cols(out_df, first_cols)
      return(out_df)
  \<close>
\<close>

definition utilities_eia860 :: "(string \<Rightarrow> dataframe) \<Rightarrow> error + dataframe" where
  "utilities_eia860 pudl_engine =
     (let utils_eia860_df = pudl_engine ''utilities_eia860''
      in bind (getitem_list (pudl_engine ''utilities_eia'') [''operator_id'', ''util_id_pudl''])
        (\<lambda>utils_eia_df. bind (pd_merge utils_eia860_df utils_eia_df Left [''operator_id''])
        (\<lambda>out_df. bind (drop_cols out_df [''id''])
        (\<lambda>out_df. organize_cols out_df
                     [''report_year'', ''operator_id'', ''util_id_pudl'', ''operator_name'']))))"

text \<open>
  \<^verbatim>\<open>plants_utils_ferc1\<close> and \<^verbatim>\<open>plants_steam_ferc1\<close>: \<^verbatim>\<open>pd.merge\<close> without
  \<^verbatim>\<open>how\<close> is an inner join.
\<close>

definition plants_utils_ferc1 :: "(string \<Rightarrow> dataframe) \<Rightarrow> error + dataframe" where
  "plants_utils_ferc1 pudl_engine =
     (let utils_ferc = pudl_engine ''utilities_ferc'';
          plants_ferc = pudl_engine ''plants_ferc''
      in pd_merge plants_ferc utils_ferc Inner [''respondent_id''])"

definition plants_steam_ferc1 :: "(string \<Rightarrow> dataframe) \<Rightarrow> error + dataframe" where
  "plants_steam_ferc1 pudl_engine =
     (let steam_df = pudl_engine ''plants_steam_ferc1''
      in bind (plants_utils_ferc1 pudl_engine)
        (\<lambda>pu_ferc. bind (pd_merge steam_df pu_ferc Inner [''respondent_id'', ''plant_name''])
        (\<lambda>out_df. organize_cols out_df
                     [''report_year'', ''respondent_id'', ''util_id_pudl'', ''respondent_name'',
                      ''plant_id_pudl'', ''plant_name''])))"

text \<open>
  \<^verbatim>\<open>plants_utils_eia\<close>: three left joins, then \<^verbatim>\<open>dropna()\<close> over all columns and the
  casts of the two surrogate identifiers.
\<close>

definition plants_utils_eia :: "(string \<Rightarrow> dataframe) \<Rightarrow> error + dataframe" where
  "plants_utils_eia pudl_engine =
     bind (getitem_list (pudl_engine ''plants_eia860'')
             [''report_date'', ''plant_id'', ''plant_name'', ''operator_id''])
    (\<lambda>plants_eia860. bind (getitem_list (pudl_engine ''utilities_eia860'')
             [''report_date'', ''operator_id'', ''operator_name''])
    (\<lambda>utils_eia860. bind (pd_merge plants_eia860 utils_eia860 Left [''report_date'', ''operator_id''])
    (\<lambda>out_df. bind (getitem_list (pudl_engine ''utilities_eia'') [''operator_id'', ''util_id_pudl''])
    (\<lambda>utils_eia. bind (pd_merge out_df utils_eia Left [''operator_id''])
    (\<lambda>out_df. bind (getitem_list (pudl_engine ''plants_eia'') [''plant_id'', ''plant_id_pudl''])
    (\<lambda>plants_eia. bind (pd_merge out_df plants_eia Left [''plant_id''])
    (\<lambda>out_df. bind (dropna out_df (col_names out_df))
    (\<lambda>out_df. bind (astype_int_col ''plant_id_pudl'' out_df)
    (\<lambda>out_df. astype_int_col ''util_id_pudl'' out_df)))))))))"

text \<open>
  A database in which the utility 7 of the EIA 860 tables has no row in the table of EIA
  utilities, and a FERC plant with its utility.
\<close>

definition engine_example :: "string \<Rightarrow> dataframe" where
  "engine_example t =
     (if t = ''utilities_eia860'' then
        [(''id'', IntCol [1, 2]),
         (''operator_id'', IntCol [195, 7]),
         (''operator_name'', ObjCol [Some ''Alabama Power Co'', Some ''Other'']),
         (''report_date'', ObjCol [Some ''2016-01-01'', Some ''2016-01-01'']),
         (''report_year'', IntCol [2016, 2016])]
      else if t = ''plants_eia860'' then
        [(''id'', IntCol [1, 2]),
         (''report_date'', ObjCol [Some ''2016-01-01'', Some ''2016-01-01'']),
         (''plant_id'', IntCol [3, 4]),
         (''plant_name'', ObjCol [Some ''Barry'', Some ''Elsewhere'']),
         (''operator_id'', IntCol [195, 7])]
      else if t = ''plants_eia'' then
        [(''plant_id'', IntCol [3, 4]),
         (''plant_name'', ObjCol [Some ''Barry'', Some ''Elsewhere'']),
         (''plant_id_pudl'', IntCol [32, 33])]
      else if t = ''utilities_eia'' then
        [(''operator_id'', IntCol [195]),
         (''operator_name'', ObjCol [Some ''Alabama Power Co'']),
         (''util_id_pudl'', IntCol [18])]
      else if t = ''utilities_ferc'' then
        [(''respondent_id'', IntCol [2]),
         (''respondent_name'', ObjCol [Some ''Alabama Power Co'']),
         (''util_id_pudl'', IntCol [18])]
      else if t = ''plants_ferc'' then
        [(''respondent_id'', IntCol [2, 2]),
         (''plant_name'', ObjCol [Some ''barry'', Some ''gaston'']),
         (''plant_id_pudl'', IntCol [32, 207])]
      else if t = ''plants_steam_ferc1'' then
        [(''report_year'', IntCol [2016]),
         (''respondent_id'', IntCol [2]),
         (''plant_name'', ObjCol [Some ''barry'']),
         (''net_generation_mwh'', FloatCol [Some 100])]
      else [])"

text \<open>The columns labelled \<open>name\<close> are integral-typed when each is an integer column.\<close>

definition int_typed :: "string \<Rightarrow> dataframe \<Rightarrow> bool" where
  "int_typed name df = (\<forall>(n, c) \<in> set df. n = name \<longrightarrow> (case c of IntCol vs \<Rightarrow> True | _ \<Rightarrow> False))"




section \<open>Temporal aggregation\<close>







subsection \<open>Fuel receipts and costs\<close>












subsection \<open>Boiler fuel\<close>










subsection \<open>Generation fuel\<close>







subsection \<open>Buckets and weighted fields\<close>









section \<open>The integrity verifier\<close>

text \<open>
  SQLite reports the foreign keys of a table with \<^verbatim>\<open>PRAGMA foreign_key_list(table)\<close>,
  one row for each column of each foreign key: the id of the key within the table, the
  position of the column in the key, the parent table, and the child and parent column.
  \<^verbatim>\<open>PRAGMA foreign_key_check\<close> reports one row for each violation: the child table,
  the rowid of the offending row, the parent table and the id of the violated key. The
  results of the two pragmas are the verifier's view of the store.
\<close>

record fk_list_row =
  fkl_id :: nat
  fkl_seq :: nat
  fkl_table :: string
  fkl_from :: string
  fkl_to :: string

record fk_check_row =
  fkc_table :: string
  fkc_rowid :: int
  fkc_parent :: string
  fkc_fkid :: nat

record store =
  foreign_key_list :: "string \<Rightarrow> fk_list_row list"
  foreign_key_check :: "fk_check_row list"

text \<open>\<^verbatim>\<open>sep.join(xs)\<close> and \<^verbatim>\<open>drop_duplicates\<close> (the first of equal rows is kept).\<close>

fun join :: "string \<Rightarrow> string list \<Rightarrow> string" where
  "join sep [] = []"
| "join sep [x] = x"
| "join sep (x # y # ys) = x @ sep @ join sep (y # ys)"

fun drop_duplicates :: "'a list \<Rightarrow> 'a list" where
  "drop_duplicates [] = []"
| "drop_duplicates (x # xs) = x # drop_duplicates [y \<leftarrow> xs. y \<noteq> x]"

text \<open>
  \<^verbatim>\<open>
  table_fks["fk"] = table_fks.groupby("table")["to"].transform(
      lambda field: "(" + ", ".join(field) + ")")
  table_fks = table_fks[["id", "table", "fk"]].drop_duplicates()
  table_fks = table_fks.rename(columns={"id": "fkid", "table": "parent"})
  table_fks["table"] = table
  \<close>
  The rows are grouped by the column \<^verbatim>\<open>table\<close> of the pragma, the parent table: the
  descriptor of a row joins the parent columns of all rows with the same parent table.
\<close>

definition fk_descriptor :: "fk_list_row list \<Rightarrow> string \<Rightarrow> string" where
  "fk_descriptor table_fks parent_name =
     ''('' @ join '', '' (map fkl_to [q \<leftarrow> table_fks. fkl_table q = parent_name]) @ '')''"

record table_fk =
  tfk_fkid :: nat
  tfk_parent :: string
  tfk_fk :: string
  tfk_table :: string

definition get_fk_list :: "store \<Rightarrow> string \<Rightarrow> table_fk list" where
  "get_fk_list db tbl =
     (let table_fks = foreign_key_list db tbl;
          rows = drop_duplicates
                   (map (\<lambda>r. (fkl_id r, fkl_table r, fk_descriptor table_fks (fkl_table r))) table_fks)
      in map (\<lambda>(i, p, d). \<lparr> tfk_fkid = i, tfk_parent = p, tfk_fk = d, tfk_table = tbl \<rparr>) rows)"

record ForeignKeyError =
  child_table :: string
  parent_table :: string
  foreign_key :: string
  rowids :: "int list"

datatype fk_failure = ForeignKeyErrors "ForeignKeyError list" | MergeError

text \<open>
  The left merge of the violations with the descriptors on parent, fkid and table, with
  \<^verbatim>\<open>validate="m:1"\<close>: pandas raises MergeError when the keys of the right side are not
  unique; a violation without a descriptor gets a missing one.
\<close>

definition fk_errors_with_keys :: "fk_check_row list \<Rightarrow> table_fk list \<Rightarrow> (fk_check_row \<times> string option) list" where
  "fk_errors_with_keys fk_errors table_foreign_keys =
     map (\<lambda>e. (e, map_option tfk_fk
                    (find (\<lambda>d. tfk_parent d = fkc_parent e \<and> tfk_fkid d = fkc_fkid e
                               \<and> tfk_table d = fkc_table e) table_foreign_keys)))
         fk_errors"

text \<open>
  \<^verbatim>\<open>groupby(["table", "parent", "fk"])\<close>: the groups in the order of their keys; a row
  with a missing key value is in no group. Each group becomes one ForeignKeyError with the
  rowids of its rows.
\<close>

definition group_key :: "fk_check_row \<times> string option \<Rightarrow> (string \<times> string \<times> string) option" where
  "group_key x = (case snd x of None \<Rightarrow> None
                  | Some d \<Rightarrow> Some (fkc_table (fst x), fkc_parent (fst x), d))"

definition check_foreign_keys :: "store \<Rightarrow> fk_failure + unit" where
  "check_foreign_keys db =
     (let fk_errors = foreign_key_check db
      in if fk_errors \<noteq> [] then
           let tables_with_fk_errors = drop_duplicates (map fkc_table fk_errors);
               table_foreign_keys = concat (map (get_fk_list db) tables_with_fk_errors)
           in if \<not> distinct (map (\<lambda>d. (tfk_parent d, tfk_fkid d, tfk_table d)) table_foreign_keys)
              then Inl MergeError
              else
                let merged = fk_errors_with_keys fk_errors table_foreign_keys;
                    errors = map (\<lambda>k. \<lparr> child_table = fst k, parent_table = fst (snd k),
                                          foreign_key = snd (snd k),
                                          rowids = map (\<lambda>x. fkc_rowid (fst x))
                                                       [x \<leftarrow> merged. group_key x = Some k] \<rparr>)
                                 (sort (remdups (List.map_filter group_key merged)))
                in Inl (ForeignKeyErrors errors)
         else Inr ())"

text \<open>
  The pragmas of one database agree: every violation names a foreign key that the list
  of its table declares, with the same parent table.
\<close>

definition consistent :: "store \<Rightarrow> bool" where
  "consistent db =
     (\<forall>e \<in> set (foreign_key_check db).
        \<exists>r \<in> set (foreign_key_list db (fkc_table e)).
          fkl_id r = fkc_fkid e \<and> fkl_table r = fkc_parent e)"

text \<open>The group of a violation: child table, parent table and descriptor.\<close>

definition violation_group :: "store \<Rightarrow> fk_check_row \<Rightarrow> string \<times> string \<times> string" where
  "violation_group db e =
     (fkc_table e, fkc_parent e, fk_descriptor (foreign_key_list db (fkc_table e)) (fkc_parent e))"

text \<open>
  A child table with two foreign keys to the same parent table, \<open>a\<close> to \<open>x\<close> and \<open>b\<close> to
  \<open>y\<close>, and one violation of each.
\<close>

definition store_example :: store where
  "store_example =
     \<lparr> foreign_key_list = (\<lambda>t. if t = ''child''
          then [\<lparr> fkl_id = 0, fkl_seq = 0, fkl_table = ''parent'', fkl_from = ''a'', fkl_to = ''x'' \<rparr>,
                \<lparr> fkl_id = 1, fkl_seq = 0, fkl_table = ''parent'', fkl_from = ''b'', fkl_to = ''y'' \<rparr>]
          else []),
       foreign_key_check =
         [\<lparr> fkc_table = ''child'', fkc_rowid = 1, fkc_parent = ''parent'', fkc_fkid = 0 \<rparr>,
          \<lparr> fkc_table = ''child'', fkc_rowid = 2, fkc_parent = ''parent'', fkc_fkid = 1 \<rparr>] \<rparr>"

text \<open>
  A store with one orphan row: row 7 of the generators refers to a plant that the table
  of plants does not have.
\<close>

definition store_orphan :: store where
  "store_orphan =
     \<lparr> foreign_key_list = (\<lambda>t. if t = ''generators''
          then [\<lparr> fkl_id = 0, fkl_seq = 0, fkl_table = ''plants'', fkl_from = ''plant_id'',
                  fkl_to = ''plant_id'' \<rparr>]
          else []),
       foreign_key_check =
         [\<lparr> fkc_table = ''generators'', fkc_rowid = 7, fkc_parent = ''plants'', fkc_fkid = 0 \<rparr>] \<rparr>"

section \<open>The storage loader\<close>

text \<open>
  A stored row gives each column a value or NULL. The rows of a frame, one after the
  other, are what \<^verbatim>\<open>to_sql\<close> inserts.
\<close>

datatype cell = IntV int | FloatV rat | StrV string | Null

type_synonym row = "(string \<times> cell) list"

fun col_cell :: "column \<Rightarrow> nat \<Rightarrow> cell" where
  "col_cell (IntCol vs) i = IntV (vs ! i)"
| "col_cell (FloatCol vs) i = (case vs ! i of None \<Rightarrow> Null | Some r \<Rightarrow> FloatV r)"
| "col_cell (ObjCol vs) i = (case vs ! i of None \<Rightarrow> Null | Some s \<Rightarrow> StrV s)"

definition df_rows :: "dataframe \<Rightarrow> row list" where
  "df_rows df = map (\<lambda>i. map (\<lambda>(n, c). (n, col_cell c i)) df) [0..<nrows df]"

text \<open>
  A table of the database: its columns, those declared NOT NULL, and its committed rows.
  The manager holds the metadata (the columns of each registered table), the database
  its engine connects to, and the log.
\<close>

record db_table =
  t_columns :: "string list"
  t_not_null :: "string list"
  t_rows :: "row list"

datatype log_event = Warning string

datatype sql_error = OperationalError | IntegrityError

record manager =
  md :: "string \<Rightarrow> string list option"
  engine :: "string \<Rightarrow> db_table option"
  logger :: "log_event list"

text \<open>
  \<^verbatim>\<open>
  sa_table = self.md.tables.get(table_name, None)
  if sa_table is None:
      logger.warning(f"{sa_table} not found in database metadata. Dtypes of returned DataFrame might be incorrect.")
  return sa_table
  \<close>
  The message formats \<^verbatim>\<open>sa_table\<close>, which is None here.
\<close>

definition get_sqlalchemy_table :: "manager \<Rightarrow> string \<Rightarrow> string list option \<times> manager" where
  "get_sqlalchemy_table m table_name =
     (let sa_table = md m table_name
      in if sa_table = None
         then (sa_table,
               m \<lparr> logger := logger m @ [Warning
                 ''None not found in database metadata. Dtypes of returned DataFrame might be incorrect.''] \<rparr>)
         else (sa_table, m))"

text \<open>
  The insert of \<^verbatim>\<open>to_sql(..., if_exists="append")\<close>: pandas runs it in a transaction of
  its own, so either every row is added or, when SQLite rejects the statement, none is.
  SQLite rejects a frame with a column the table does not have (OperationalError) and a
  row without a value for a NOT NULL column (IntegrityError).
\<close>

definition row_value :: "row \<Rightarrow> string \<Rightarrow> cell" where
  "row_value r c = (case map_of r c of None \<Rightarrow> Null | Some v \<Rightarrow> v)"

definition insert_rows :: "db_table \<Rightarrow> dataframe \<Rightarrow> sql_error + db_table" where
  "insert_rows t df =
     (if \<exists>c \<in> set (col_names df). c \<notin> set (t_columns t) then Inl OperationalError
      else if \<exists>r \<in> set (df_rows df). \<exists>c \<in> set (t_not_null t). row_value r c = Null
        then Inl IntegrityError
      else Inr (t \<lparr> t_rows := t_rows t @ df_rows df \<rparr>))"

text \<open>
  \<^verbatim>\<open>
  if sa_table is None:
      with engine.connect() as con:
          df.to_sql(table_name, con, if_exists="replace", index=False)
  else:
      with engine.connect() as con:
          con.execute(sa_table.delete())
          df.to_sql(table_name, con, if_exists="append", index=False,
                    dtype={c.name: c.type for c in sa_table.columns})
  \<close>
  The connection is opened without \<^verbatim>\<open>begin()\<close>. On the SQLAlchemy 1.x connection this
  module is written for (it executes plain strings), a statement executed outside a
  transaction is committed as soon as it completes: the delete is durable before the
  insert starts. A delete from a table the database does not have fails with
  OperationalError. With \<^verbatim>\<open>if_exists="replace"\<close> the table is dropped and created anew
  from the frame. The result is the exception raised, if any, and the manager after the
  call.
\<close>

definition handle_pandas_output ::
  "manager \<Rightarrow> string \<Rightarrow> dataframe \<Rightarrow> sql_error option \<times> manager" where
  "handle_pandas_output m table_name df =
     (case get_sqlalchemy_table m table_name of
        (None, m1) \<Rightarrow>
          (None, m1 \<lparr> engine := (engine m1)(table_name \<mapsto>
                     \<lparr> t_columns = col_names df, t_not_null = [], t_rows = df_rows df \<rparr>) \<rparr>)
      | (Some sa_table, m1) \<Rightarrow>
          (case engine m1 table_name of
             None \<Rightarrow> (Some OperationalError, m1)
           | Some t \<Rightarrow>
               let deleted = t \<lparr> t_rows := [] \<rparr>;
                   m2 = m1 \<lparr> engine := (engine m1)(table_name \<mapsto> deleted) \<rparr>
               in (case insert_rows deleted df of
                     Inl e \<Rightarrow> (Some e, m2)
                   | Inr t' \<Rightarrow> (None, m2 \<lparr> engine := (engine m2)(table_name \<mapsto> t') \<rparr>))))"

text \<open>The committed rows of a table, as a reader of the database sees them.\<close>

definition stored_rows :: "manager \<Rightarrow> string \<Rightarrow> row list option" where
  "stored_rows m table_name = map_option t_rows (engine m table_name)"

text \<open>
  A manager with one registered table, \<open>plants\<close>, whose column \<open>plant_id\<close> is NOT NULL
  and which holds one row; no other table is registered.
\<close>

definition manager_example :: manager where
  "manager_example =
     \<lparr> md = (\<lambda>t. if t = ''plants'' then Some [''plant_id'', ''plant_name''] else None),
       engine = (\<lambda>t. if t = ''plants''
               then Some \<lparr> t_columns = [''plant_id'', ''plant_name''], t_not_null = [''plant_id''],
                           t_rows = [[(''plant_id'', IntV 3), (''plant_name'', StrV ''Barry'')]] \<rparr>
               else None),
       logger = [] \<rparr>"

section \<open>Properties of the column organizer\<close>

lemma filter_fst_distinct:
  "distinct (map fst df) \<Longrightarrow> l \<in> set (map fst df) \<Longrightarrow> map fst [p \<leftarrow> df. fst p = l] = [l]"
proof (induction df)
  case Nil
  then show ?case by simp
next
  case (Cons p df)
  show ?case
  proof (cases "fst p = l")
    case True
    with Cons.prems have "l \<notin> fst ` set df" by auto
    then have "[q \<leftarrow> df. fst q = l] = []" by (auto simp: filter_empty_conv)
    with True show ?thesis by simp
  next
    case False
    with Cons show ?thesis by auto
  qed
qed

lemma select_names:
  "distinct (map fst df) \<Longrightarrow> set labels \<subseteq> set (map fst df) \<Longrightarrow>
   map fst (concat (map (\<lambda>l. [p \<leftarrow> df. fst p = l]) labels)) = labels"
  by (induction labels) (simp_all add: filter_fst_distinct)

lemma select_subset:
  "set (concat (map (\<lambda>l. [p \<leftarrow> df. fst p = l]) labels)) \<subseteq> set df"
  by auto

lemma getitem_list_ok:
  "set labels \<subseteq> set (col_names df) \<Longrightarrow>
   getitem_list df labels = Inr (concat (map (\<lambda>l. [p \<leftarrow> df. fst p = l]) labels))"
  by (auto simp: getitem_list_def filter_empty_conv)

lemma select_names_general:
  "map fst (concat (map (\<lambda>l. [p \<leftarrow> df. fst p = l]) labels))
     = concat (map (\<lambda>l. [n \<leftarrow> map fst df. n = l]) labels)"
  by (induction labels) (simp_all add: filter_map o_def)

text \<open>
  C6. When every lead column is a column of the frame, the organizer returns the frame's
  columns in the order: the lead columns as the caller gave them, then the remaining
  columns sorted; every column keeps its label and its data. With distinct labels (the
  data model: a row maps a column name to a value) the labels of the result are exactly
  the lead columns followed by the sorted remaining labels, so lead columns [A, B] over
  the columns D, C give [A, B, C, D]; a label that several columns carry brings all of
  them, at the label's place in that order.
\<close>

theorem organize_cols_order:
  assumes "set cols \<subseteq> set (col_names df)"
  shows "\<exists>df'. organize_cols df cols = Inr df'
           \<and> set df' \<subseteq> set df
           \<and> col_names df'
               = concat (map (\<lambda>l. [n \<leftarrow> col_names df. n = l])
                             (cols @ sort [c \<leftarrow> col_names df. c \<notin> set cols]))
           \<and> (distinct (col_names df) \<longrightarrow>
                 col_names df' = cols @ sort [c \<leftarrow> col_names df. c \<notin> set cols])"
proof -
  let ?labels = "cols @ sort [c \<leftarrow> col_names df. c \<notin> set cols]"
  let ?out = "concat (map (\<lambda>l. [p \<leftarrow> df. fst p = l]) ?labels)"
  have sub: "set ?labels \<subseteq> set (col_names df)"
    using assms by auto
  then have run: "organize_cols df cols = Inr ?out"
    by (simp add: organize_cols_def Let_def getitem_list_ok)
  have general: "col_names ?out = concat (map (\<lambda>l. [n \<leftarrow> col_names df. n = l]) ?labels)"
    unfolding col_names_def by (rule select_names_general)
  have names: "col_names ?out = ?labels" if "distinct (col_names df)"
    unfolding col_names_def
    using that sub by (intro select_names) (simp_all add: col_names_def)
  have "set ?out \<subseteq> set df"
    by (rule select_subset)
  with run general names show ?thesis by blast
qed

theorem organize_cols_order_witness:
  "organize_cols [(''D'', IntCol [4]), (''A'', IntCol [1]), (''C'', IntCol [3]), (''B'', IntCol [2])]
     [''A'', ''B'']
   = Inr [(''A'', IntCol [1]), (''B'', IntCol [2]), (''C'', IntCol [3]), (''D'', IntCol [4])]"
proof -
  let ?df = "[(''D'', IntCol [4]), (''A'', IntCol [1]), (''C'', IntCol [3]), (''B'', IntCol [2])]"
  have a: "set [''A'', ''B''] \<subseteq> set (col_names ?df)"
    by (simp add: col_names_def)
  have d: "distinct (col_names ?df)"
    by (simp add: col_names_def)
  from organize_cols_order [OF a] d obtain df' where
    run: "organize_cols ?df [''A'', ''B''] = Inr df'" and
    names: "col_names df' = [''A'', ''B''] @ sort [c \<leftarrow> col_names ?df. c \<notin> set [''A'', ''B'']]"
    by blast
  have "organize_cols ?df [''A'', ''B'']
     = Inr [(''A'', IntCol [1]), (''B'', IntCol [2]), (''C'', IntCol [3]), (''D'', IntCol [4])]"
    by (simp add: organize_cols_def getitem_list_def col_names_def Let_def
        less_eq_char_def less_char_def)
  with run names show ?thesis by simp
qed

text \<open>
  C7. When some lead column is not a column of the frame, the organizer fails: the call
  ends in KeyError naming the absent lead columns, and no frame is returned.
\<close>

theorem organize_cols_missing_lead:
  assumes "c \<in> set cols" and "c \<notin> set (col_names df)"
  shows "organize_cols df cols = Inl (KeyError [l \<leftarrow> cols. l \<notin> set (col_names df)])"
proof -
  have "[l \<leftarrow> cols. l \<notin> set (col_names df)] \<noteq> []"
    using assms by (auto simp: filter_empty_conv)
  moreover have "[l \<leftarrow> sort [c \<leftarrow> col_names df. c \<notin> set cols]. l \<notin> set (col_names df)] = []"
    by (auto simp: filter_empty_conv)
  ultimately show ?thesis
    by (simp add: organize_cols_def getitem_list_def Let_def)
qed

theorem organize_cols_missing_lead_witness:
  "organize_cols [(''D'', IntCol [4]), (''A'', IntCol [1])] [''A'', ''B''] = Inl (KeyError [''B''])"
  using organize_cols_missing_lead [of "''B''" "[''A'', ''B'']" "[(''D'', IntCol [4]), (''A'', IntCol [1])]"]
  by (simp add: col_names_def)

section \<open>Essential join keys of the output tables\<close>


















lemma bindE:
  assumes "bind m f = Inr y"
  obtains x where "m = Inr x" and "f x = Inr y"
  using assms by (cases m) (simp_all add: bind_def)






























section \<open>Surrogate identifiers\<close>

lemma astype_int_is_IntCol: "astype_int c = Inr c' \<Longrightarrow> \<exists>vs. c' = IntCol vs"
  by (cases c) (auto split: if_splits)

lemma astype_int_cols_typed:
  "astype_int_cols df name = Inr df' \<Longrightarrow> (n, c') \<in> set df' \<Longrightarrow>
   (\<exists>vs. c' = IntCol vs) \<or> (n \<noteq> name \<and> (n, c') \<in> set df)"
proof (induction df arbitrary: df')
  case Nil
  then show ?case by simp
next
  case (Cons p df)
  obtain m c where p: "p = (m, c)" by (cases p)
  show ?case
  proof (cases "m = name")
    case True
    with Cons.prems(1) p obtain c1 d1 where
      c1: "astype_int c = Inr c1" and d1: "astype_int_cols df name = Inr d1"
      and df': "df' = (m, c1) # d1"
      by (auto elim!: bindE)
    from Cons.prems(2) df' consider "(n, c') = (m, c1)" | "(n, c') \<in> set d1" by auto
    then show ?thesis
    proof cases
      case 1
      with astype_int_is_IntCol [OF c1] show ?thesis by simp
    next
      case 2
      with Cons.IH [OF d1] show ?thesis by auto
    qed
  next
    case False
    with Cons.prems(1) p obtain d1 where
      d1: "astype_int_cols df name = Inr d1" and df': "df' = (m, c) # d1"
      by (auto elim!: bindE)
    from Cons.prems(2) df' consider "(n, c') = (m, c)" | "(n, c') \<in> set d1" by auto
    then show ?thesis
    proof cases
      case 1
      with False p show ?thesis by simp
    next
      case 2
      with Cons.IH [OF d1] show ?thesis by auto
    qed
  qed
qed

lemma int_typed_astype:
  assumes "astype_int_col name df = Inr df'"
  shows "int_typed name df'" and "int_typed m df \<Longrightarrow> int_typed m df'"
proof -
  from assms have run: "astype_int_cols df name = Inr df'"
    by (simp add: astype_int_col_def split: if_splits)
  show "int_typed name df'"
    unfolding int_typed_def using astype_int_cols_typed [OF run] by fastforce
  show "int_typed m df'" if "int_typed m df"
    unfolding int_typed_def
  proof (intro ballI, clarify)
    fix c'
    assume "(m, c') \<in> set df'"
    from astype_int_cols_typed [OF run this] that
    show "case c' of IntCol vs \<Rightarrow> True | _ \<Rightarrow> False"
      by (auto simp: int_typed_def)
  qed
qed

lemma cast_chain_int_typed:
  assumes "bind (astype_int_col ''plant_id_pudl'' d)
    (\<lambda>d. bind (astype_int_col ''operator_id'' d)
    (\<lambda>d. astype_int_col ''util_id_pudl'' d)) = Inr out"
  shows "int_typed ''plant_id_pudl'' out \<and> int_typed ''util_id_pudl'' out"
proof -
  from assms obtain d1 d2 where
    s: "astype_int_col ''plant_id_pudl'' d = Inr d1" "astype_int_col ''operator_id'' d1 = Inr d2"
       "astype_int_col ''util_id_pudl'' d2 = Inr out"
    by (elim bindE)
  from s(1) have "int_typed ''plant_id_pudl'' d1" by (rule int_typed_astype(1))
  with s(2) have "int_typed ''plant_id_pudl'' d2" by (rule int_typed_astype(2))
  with s(3) have "int_typed ''plant_id_pudl'' out" by (rule int_typed_astype(2))
  moreover from s(3) have "int_typed ''util_id_pudl'' out" by (rule int_typed_astype(1))
  ultimately show ?thesis ..
qed

lemma generation_fuel_eia923_int_typed:
  assumes "generation_fuel_eia923_out_df merged = Inr out"
  shows "int_typed ''plant_id_pudl'' out \<and> int_typed ''util_id_pudl'' out"
proof -
  from assms obtain d1 d2 d3 where
    "bind (astype_int_col ''plant_id_pudl'' d3)
    (\<lambda>d. bind (astype_int_col ''operator_id'' d)
    (\<lambda>d. astype_int_col ''util_id_pudl'' d)) = Inr out"
    unfolding generation_fuel_eia923_out_df_def
    by (elim bindE [where m = "dropna merged ks" for ks]
        bindE [where m = "organize_cols d cs" for d cs]
        bindE [where m = "astype_int_col ''plant_id'' d" for d])
  then show ?thesis by (rule cast_chain_int_typed)
qed

lemma plants_utils_eia_int_typed:
  assumes "plants_utils_eia pudl_engine = Inr out"
  shows "int_typed ''plant_id_pudl'' out \<and> int_typed ''util_id_pudl'' out"
proof -
  from assms obtain d1 d2 where
    s: "astype_int_col ''plant_id_pudl'' d1 = Inr d2" "astype_int_col ''util_id_pudl'' d2 = Inr out"
    unfolding plants_utils_eia_def by (elim bindE)
  from s(1) have "int_typed ''plant_id_pudl'' d2" by (rule int_typed_astype(1))
  with s(2) have "int_typed ''plant_id_pudl'' out" by (rule int_typed_astype(2))
  moreover from s(2) have "int_typed ''util_id_pudl'' out" by (rule int_typed_astype(1))
  ultimately show ?thesis ..
qed

text \<open>
  C9. The EIA 860 utilities output attaches \<^verbatim>\<open>util_id_pudl\<close> by a left join and
  returns it as it comes: for a utility without a row in the table of EIA utilities the
  column is a floating column with a missing value in that row, not an integral one.
  (\<^verbatim>\<open>plants_utils_eia\<close> and the EIA 923 functions drop the unresolved rows and cast
  the same columns with \<^verbatim>\<open>astype(int)\<close>, see \<open>plants_utils_eia_int_typed\<close> and
  \<open>generation_fuel_eia923_int_typed\<close>.)
\<close>

theorem utilities_eia860_util_id_pudl_float:
  "utilities_eia860 engine_example
     = Inr [(''report_year'', IntCol [2016, 2016]),
            (''operator_id'', IntCol [195, 7]),
            (''util_id_pudl'', FloatCol [Some 18, None]),
            (''operator_name'', ObjCol [Some ''Alabama Power Co'', Some ''Other'']),
            (''report_date'', ObjCol [Some ''2016-01-01'', Some ''2016-01-01''])]"
  by code_simp

lemma plants_steam_ferc1_example:
  "plants_steam_ferc1 engine_example
     = Inr [(''report_year'', IntCol [2016]), (''respondent_id'', IntCol [2]),
            (''util_id_pudl'', IntCol [18]),
            (''respondent_name'', ObjCol [Some ''Alabama Power Co'']),
            (''plant_id_pudl'', IntCol [32]),
            (''plant_name'', ObjCol [Some ''barry'']),
            (''net_generation_mwh'', FloatCol [Some 100])]"
  by code_simp


section \<open>Aggregated ratio fields\<close>























section \<open>Foreign key violations\<close>

lemma set_drop_duplicates: "set (drop_duplicates xs) = set xs"
  by (induction xs rule: drop_duplicates.induct) auto

lemma distinct_drop_duplicates: "distinct (drop_duplicates xs)"
  by (induction xs rule: drop_duplicates.induct) (auto simp: set_drop_duplicates)

lemma get_fk_list_mem:
  "d \<in> set (get_fk_list db t) \<longleftrightarrow>
   (\<exists>r \<in> set (foreign_key_list db t).
      d = \<lparr> tfk_fkid = fkl_id r, tfk_parent = fkl_table r,
            tfk_fk = fk_descriptor (foreign_key_list db t) (fkl_table r), tfk_table = t \<rparr>)"
  by (auto simp: get_fk_list_def Let_def set_drop_duplicates image_iff)

lemma get_fk_list_fk:
  "d \<in> set (get_fk_list db t) \<Longrightarrow>
   tfk_table d = t \<and> tfk_fk d = fk_descriptor (foreign_key_list db t) (tfk_parent d)"
  by (auto simp: get_fk_list_mem)

lemma get_fk_list_distinct:
  "distinct (map (\<lambda>d. (tfk_parent d, tfk_fkid d, tfk_table d)) (get_fk_list db t))"
proof -
  let ?rows = "drop_duplicates
                 (map (\<lambda>r. (fkl_id r, fkl_table r,
                             fk_descriptor (foreign_key_list db t) (fkl_table r)))
                      (foreign_key_list db t))"
  have eq: "map (\<lambda>d. (tfk_parent d, tfk_fkid d, tfk_table d)) (get_fk_list db t)
          = map (\<lambda>(i, p, d). (p, i, t)) ?rows"
    by (simp add: get_fk_list_def Let_def split_def)
  have "inj_on (\<lambda>(i, p, d). (p, i, t)) (set ?rows)"
    by (auto simp: inj_on_def set_drop_duplicates)
  then show ?thesis
    unfolding eq by (simp add: distinct_map distinct_drop_duplicates)
qed

lemma table_foreign_keys_distinct:
  "distinct ts \<Longrightarrow>
   distinct (map (\<lambda>d. (tfk_parent d, tfk_fkid d, tfk_table d)) (concat (map (get_fk_list db) ts)))"
proof (induction ts)
  case Nil
  then show ?case by simp
next
  case (Cons t ts)
  have "tfk_table d \<noteq> tfk_table d'"
    if "d \<in> set (get_fk_list db t)" "d' \<in> set (concat (map (get_fk_list db) ts))" for d d'
  proof -
    from that(2) obtain t' where "t' \<in> set ts" "d' \<in> set (get_fk_list db t')" by auto
    with that(1) Cons.prems show ?thesis by (auto dest!: get_fk_list_fk)
  qed
  then have "(\<lambda>d. (tfk_parent d, tfk_fkid d, tfk_table d)) ` set (get_fk_list db t)
      \<inter> (\<lambda>d. (tfk_parent d, tfk_fkid d, tfk_table d)) ` set (concat (map (get_fk_list db) ts)) = {}"
    by (auto simp del: set_concat)
  with Cons get_fk_list_distinct [of db t] show ?case
    by (simp del: set_concat)
qed

lemma find_SomeD: "find P xs = Some x \<Longrightarrow> P x \<and> x \<in> set xs"
  by (induction xs) (auto split: if_splits)

lemma map_filter_total:
  "(\<And>x. h (g x) = Some (k x)) \<Longrightarrow> List.map_filter h (map g xs) = map k xs"
  by (induction xs) simp_all

lemma find_descriptor:
  assumes "e \<in> set fk_errors" and "set fk_errors \<subseteq> set (foreign_key_check db)"
    and "consistent db"
  shows "map_option tfk_fk
           (find (\<lambda>d. tfk_parent d = fkc_parent e \<and> tfk_fkid d = fkc_fkid e
                      \<and> tfk_table d = fkc_table e)
                 (concat (map (get_fk_list db) (drop_duplicates (map fkc_table fk_errors)))))
         = Some (fk_descriptor (foreign_key_list db (fkc_table e)) (fkc_parent e))"
proof -
  let ?tfks = "concat (map (get_fk_list db) (drop_duplicates (map fkc_table fk_errors)))"
  let ?P = "\<lambda>d. tfk_parent d = fkc_parent e \<and> tfk_fkid d = fkc_fkid e \<and> tfk_table d = fkc_table e"
  from assms obtain r where r: "r \<in> set (foreign_key_list db (fkc_table e))"
    "fkl_id r = fkc_fkid e" "fkl_table r = fkc_parent e"
    by (auto simp: consistent_def)
  define d0 where "d0 = \<lparr> tfk_fkid = fkl_id r, tfk_parent = fkl_table r,
            tfk_fk = fk_descriptor (foreign_key_list db (fkc_table e)) (fkl_table r),
            tfk_table = fkc_table e \<rparr>"
  from r(1) have "d0 \<in> set (get_fk_list db (fkc_table e))"
    unfolding get_fk_list_mem d0_def by blast
  with assms(1) have "d0 \<in> set ?tfks"
    by (auto simp: set_drop_duplicates)
  moreover have "?P d0" by (simp add: d0_def r)
  ultimately have "find ?P ?tfks \<noteq> None"
    by (auto simp: find_None_iff)
  then obtain d where d: "find ?P ?tfks = Some d" by auto
  then have "?P d" and "d \<in> set ?tfks"
    by (auto dest: find_SomeD)
  then obtain t where "d \<in> set (get_fk_list db t)" by auto
  from get_fk_list_fk [OF this] \<open>?P d\<close>
  have "tfk_fk d = fk_descriptor (foreign_key_list db (fkc_table e)) (fkc_parent e)"
    by auto
  with d show ?thesis by simp
qed

lemma merged_consistent:
  assumes "consistent db"
  shows "fk_errors_with_keys (foreign_key_check db)
           (concat (map (get_fk_list db) (drop_duplicates (map fkc_table (foreign_key_check db)))))
         = map (\<lambda>e. (e, Some (snd (snd (violation_group db e))))) (foreign_key_check db)"
  unfolding fk_errors_with_keys_def violation_group_def
  using find_descriptor [OF _ subset_refl assms] by simp

lemma group_key_consistent:
  "group_key (e, Some (snd (snd (violation_group db e)))) = Some (violation_group db e)"
  by (simp add: group_key_def violation_group_def)

lemma check_foreign_keys_consistent:
  assumes "consistent db" and "foreign_key_check db \<noteq> []"
  shows "check_foreign_keys db = Inl (ForeignKeyErrors
           (map (\<lambda>k. \<lparr> child_table = fst k, parent_table = fst (snd k), foreign_key = snd (snd k),
                       rowids = map fkc_rowid [e \<leftarrow> foreign_key_check db. violation_group db e = k] \<rparr>)
                (sort (remdups (map (violation_group db) (foreign_key_check db))))))"
proof -
  let ?ts = "drop_duplicates (map fkc_table (foreign_key_check db))"
  let ?tfks = "concat (map (get_fk_list db) ?ts)"
  let ?merged = "map (\<lambda>e. (e, Some (snd (snd (violation_group db e))))) (foreign_key_check db)"
  have d: "distinct (map (\<lambda>d. (tfk_parent d, tfk_fkid d, tfk_table d)) ?tfks)"
    by (rule table_foreign_keys_distinct) (rule distinct_drop_duplicates)
  have m: "fk_errors_with_keys (foreign_key_check db) ?tfks = ?merged"
    by (rule merged_consistent [OF assms(1)])
  have keys: "List.map_filter group_key ?merged = map (violation_group db) (foreign_key_check db)"
    by (rule map_filter_total) (rule group_key_consistent)
  have rows: "map (\<lambda>x. fkc_rowid (fst x)) [x \<leftarrow> ?merged. group_key x = Some k]
            = map fkc_rowid [e \<leftarrow> foreign_key_check db. violation_group db e = k]" for k
    by (simp add: filter_map o_def group_key_consistent)
  show ?thesis
    unfolding check_foreign_keys_def Let_def
    using assms(2) d by (simp only: m keys rows simp_thms if_True if_False)
qed

text \<open>
  C2. The check raises exactly when the store has a violation. On the pragmas of one
  database it raises ForeignKeyErrors with exactly one entry for each distinct group of
  child table, parent table and descriptor among all the violations, and the entry of a
  group carries the rowids of all the violations of the group. With a single orphan row
  the error has one entry, which names the child table, the parent table and the rowid
  of that row; with no violation nothing is raised.
\<close>

theorem check_foreign_keys_report:
  "((\<exists>err. check_foreign_keys db = Inl err) \<longleftrightarrow> foreign_key_check db \<noteq> [])
   \<and> (foreign_key_check db = [] \<longrightarrow> check_foreign_keys db = Inr ())
   \<and> (consistent db \<and> foreign_key_check db \<noteq> [] \<longrightarrow>
        (\<exists>errors. check_foreign_keys db = Inl (ForeignKeyErrors errors)
           \<and> map (\<lambda>E. (child_table E, parent_table E, foreign_key E)) errors
               = sort (remdups (map (violation_group db) (foreign_key_check db)))
           \<and> (\<forall>E \<in> set errors.
                 rowids E = map fkc_rowid
                   [e \<leftarrow> foreign_key_check db.
                      violation_group db e = (child_table E, parent_table E, foreign_key E)])))
   \<and> (\<forall>e. consistent db \<and> foreign_key_check db = [e] \<longrightarrow>
        check_foreign_keys db = Inl (ForeignKeyErrors
          [\<lparr> child_table = fkc_table e, parent_table = fkc_parent e,
              foreign_key = fk_descriptor (foreign_key_list db (fkc_table e)) (fkc_parent e),
              rowids = [fkc_rowid e] \<rparr>]))"
proof (intro conjI allI impI)
  show "(\<exists>err. check_foreign_keys db = Inl err) \<longleftrightarrow> foreign_key_check db \<noteq> []"
    by (simp add: check_foreign_keys_def Let_def)
  show "check_foreign_keys db = Inr ()" if "foreign_key_check db = []"
    using that by (simp add: check_foreign_keys_def)
  show "\<exists>errors. check_foreign_keys db = Inl (ForeignKeyErrors errors)
           \<and> map (\<lambda>E. (child_table E, parent_table E, foreign_key E)) errors
               = sort (remdups (map (violation_group db) (foreign_key_check db)))
           \<and> (\<forall>E \<in> set errors.
                 rowids E = map fkc_rowid
                   [e \<leftarrow> foreign_key_check db.
                      violation_group db e = (child_table E, parent_table E, foreign_key E)])"
    if h: "consistent db \<and> foreign_key_check db \<noteq> []"
  proof -
    from h have "consistent db" and "foreign_key_check db \<noteq> []" by simp_all
    note run = check_foreign_keys_consistent [OF this]
    show ?thesis
      unfolding run by (rule exI, intro conjI, rule refl) (auto simp: o_def)
  qed
  show "check_foreign_keys db = Inl (ForeignKeyErrors
          [\<lparr> child_table = fkc_table e, parent_table = fkc_parent e,
              foreign_key = fk_descriptor (foreign_key_list db (fkc_table e)) (fkc_parent e),
              rowids = [fkc_rowid e] \<rparr>])"
    if h: "consistent db \<and> foreign_key_check db = [e]" for e
  proof -
    from h have "consistent db" and "foreign_key_check db \<noteq> []" by simp_all
    note run = check_foreign_keys_consistent [OF this]
    from h show ?thesis
      unfolding run by (simp add: violation_group_def)
  qed
qed

theorem check_foreign_keys_report_witness:
  "check_foreign_keys store_orphan = Inl (ForeignKeyErrors
     [\<lparr> child_table = ''generators'', parent_table = ''plants'', foreign_key = ''(plant_id)'',
         rowids = [7] \<rparr>])
   \<and> check_foreign_keys (store_orphan \<lparr> foreign_key_check := [] \<rparr>) = Inr ()"
proof -
  let ?e = "\<lparr> fkc_table = ''generators'', fkc_rowid = 7, fkc_parent = ''plants'', fkc_fkid = 0 \<rparr>"
  have c: "consistent store_orphan \<and> foreign_key_check store_orphan = [?e]"
    by (simp add: consistent_def store_orphan_def)
  from check_foreign_keys_report [of store_orphan] c
  have "check_foreign_keys store_orphan = Inl (ForeignKeyErrors
          [\<lparr> child_table = fkc_table ?e, parent_table = fkc_parent ?e,
              foreign_key = fk_descriptor (foreign_key_list store_orphan (fkc_table ?e)) (fkc_parent ?e),
              rowids = [fkc_rowid ?e] \<rparr>])"
    by blast
  moreover have "check_foreign_keys (store_orphan \<lparr> foreign_key_check := [] \<rparr>) = Inr ()"
    using check_foreign_keys_report [of "store_orphan \<lparr> foreign_key_check := [] \<rparr>"] by simp
  ultimately show ?thesis
    by (simp add: fk_descriptor_def store_orphan_def)
qed

text \<open>
  C1. For a child table with two foreign keys to the same parent table, key 0 from \<open>a\<close>
  to \<open>x\<close> and key 1 from \<open>b\<close> to \<open>y\<close>, the enumeration keeps one row for each key, but
  both rows get the descriptor \<open>(x, y)\<close>: the columns are joined over the parent table,
  not over the key. The check then reports the violations of the two keys as one.
\<close>

theorem get_fk_list_same_parent:
  "get_fk_list store_example ''child''
     = [\<lparr> tfk_fkid = 0, tfk_parent = ''parent'', tfk_fk = ''(x, y)'', tfk_table = ''child'' \<rparr>,
        \<lparr> tfk_fkid = 1, tfk_parent = ''parent'', tfk_fk = ''(x, y)'', tfk_table = ''child'' \<rparr>]
   \<and> check_foreign_keys store_example = Inl (ForeignKeyErrors
        [\<lparr> child_table = ''child'', parent_table = ''parent'', foreign_key = ''(x, y)'',
            rowids = [1, 2] \<rparr>])"
  by code_simp


section \<open>Writing a table\<close>

text \<open>
  C3 (as the code has it). A write to a registered table that the database has deletes
  the old rows and commits, then inserts the new rows in one transaction. A call that
  completes leaves exactly the new rows. A call whose insert is rejected raises and
  leaves the table empty: the insert is rolled back as a whole, so the table is never
  partially written, but the rows deleted before are not restored. No other table
  changes.
\<close>

theorem handle_pandas_output_registered:
  assumes "md m table_name = Some sa_table" and "engine m table_name = Some t"
    and "handle_pandas_output m table_name df = (err, m')"
  shows "(err = None \<longleftrightarrow> (\<exists>t'. insert_rows (t \<lparr> t_rows := [] \<rparr>) df = Inr t'))
       \<and> (err = None \<longrightarrow> stored_rows m' table_name = Some (df_rows df))
       \<and> (err \<noteq> None \<longrightarrow> stored_rows m' table_name = Some [])
       \<and> (\<forall>other. other \<noteq> table_name \<longrightarrow> stored_rows m' other = stored_rows m other)"
proof (cases "insert_rows (t \<lparr> t_rows := [] \<rparr>) df")
  case (Inl e)
  with assms have "err = Some e"
    and "m' = m \<lparr> engine := (engine m)(table_name \<mapsto> t \<lparr> t_rows := [] \<rparr>) \<rparr>"
    by (auto simp: handle_pandas_output_def get_sqlalchemy_table_def Let_def)
  with Inl show ?thesis
    by (simp add: stored_rows_def)
next
  case (Inr t')
  then have t': "t' = t \<lparr> t_rows := df_rows df \<rparr>"
    by (auto simp: insert_rows_def split: if_splits)
  from Inr assms have "err = None"
    and "m' = m \<lparr> engine := (engine m)(table_name \<mapsto> t') \<rparr>"
    by (auto simp: handle_pandas_output_def get_sqlalchemy_table_def Let_def)
  with Inr t' show ?thesis
    by (simp add: stored_rows_def)
qed

theorem handle_pandas_output_registered_witness:
  "stored_rows manager_example ''plants''
     = Some [[(''plant_id'', IntV 3), (''plant_name'', StrV ''Barry'')]]
   \<and> fst (handle_pandas_output manager_example ''plants''
            [(''plant_id'', IntCol [4, 5]), (''plant_name'', ObjCol [Some ''Gaston'', None])]) = None
   \<and> stored_rows (snd (handle_pandas_output manager_example ''plants''
            [(''plant_id'', IntCol [4, 5]), (''plant_name'', ObjCol [Some ''Gaston'', None])]))
        ''plants''
     = Some [[(''plant_id'', IntV 4), (''plant_name'', StrV ''Gaston'')],
             [(''plant_id'', IntV 5), (''plant_name'', Null)]]"
proof -
  let ?df = "[(''plant_id'', IntCol [4, 5]), (''plant_name'', ObjCol [Some ''Gaston'', None])]"
  let ?t = "\<lparr> t_columns = [''plant_id'', ''plant_name''], t_not_null = [''plant_id''],
              t_rows = [[(''plant_id'', IntV 3), (''plant_name'', StrV ''Barry'')]] \<rparr>"
  obtain err m' where run: "handle_pandas_output manager_example ''plants'' ?df = (err, m')"
    by (cases "handle_pandas_output manager_example ''plants'' ?df")
  have a: "md manager_example ''plants'' = Some [''plant_id'', ''plant_name'']"
    and b: "engine manager_example ''plants'' = Some ?t"
    by (simp_all add: manager_example_def)
  have rows: "df_rows ?df = [[(''plant_id'', IntV 4), (''plant_name'', StrV ''Gaston'')],
             [(''plant_id'', IntV 5), (''plant_name'', Null)]]"
    by code_simp
  have ok: "insert_rows (?t \<lparr> t_rows := [] \<rparr>) ?df = Inr (?t \<lparr> t_rows := df_rows ?df \<rparr>)"
    by (simp add: insert_rows_def rows row_value_def col_names_def)
  from handle_pandas_output_registered [OF a b run] ok
  have "err = None" and "stored_rows m' ''plants'' = Some (df_rows ?df)"
    by simp_all
  then show ?thesis
    by (simp add: run rows) (simp add: stored_rows_def manager_example_def)
qed

text \<open>
  The table of plants holds one row; writing a frame whose second row has no plant id is
  rejected by the NOT NULL column, and the table is left with no row at all.
\<close>

theorem handle_pandas_output_counterexample:
  "stored_rows manager_example ''plants''
     = Some [[(''plant_id'', IntV 3), (''plant_name'', StrV ''Barry'')]]
   \<and> fst (handle_pandas_output manager_example ''plants''
            [(''plant_id'', FloatCol [Some 4, None]), (''plant_name'', ObjCol [Some ''Gaston'', Some ''Gorgas''])])
       = Some IntegrityError
   \<and> stored_rows (snd (handle_pandas_output manager_example ''plants''
            [(''plant_id'', FloatCol [Some 4, None]), (''plant_name'', ObjCol [Some ''Gaston'', Some ''Gorgas''])]))
        ''plants''
     = Some []"
  by code_simp

text \<open>
  C10. Writing a frame to a table that the metadata does not register succeeds: the
  rows of the frame become the content of the table, and a warning is logged.
\<close>

theorem handle_pandas_output_unregistered:
  assumes "md m table_name = None"
  shows "\<exists>m'. handle_pandas_output m table_name df = (None, m')
           \<and> stored_rows m' table_name = Some (df_rows df)
           \<and> logger m' = logger m @ [Warning
                ''None not found in database metadata. Dtypes of returned DataFrame might be incorrect.'']"
  using assms
  by (simp add: handle_pandas_output_def get_sqlalchemy_table_def stored_rows_def)

theorem handle_pandas_output_unregistered_witness:
  "fst (handle_pandas_output manager_example ''analysis'' [(''plant_id'', IntCol [4, 5])]) = None
   \<and> stored_rows (snd (handle_pandas_output manager_example ''analysis'' [(''plant_id'', IntCol [4, 5])]))
        ''analysis''
       = Some [[(''plant_id'', IntV 4)], [(''plant_id'', IntV 5)]]
   \<and> logger (snd (handle_pandas_output manager_example ''analysis'' [(''plant_id'', IntCol [4, 5])]))
       = [Warning
            ''None not found in database metadata. Dtypes of returned DataFrame might be incorrect.'']"
proof -
  have a: "md manager_example ''analysis'' = None"
    by (simp add: manager_example_def)
  have rows: "df_rows [(''plant_id'', IntCol [4, 5])] = [[(''plant_id'', IntV 4)], [(''plant_id'', IntV 5)]]"
    by code_simp
  have l: "logger manager_example = []"
    by (simp add: manager_example_def)
  from handle_pandas_output_unregistered [OF a, of "[(''plant_id'', IntCol [4, 5])]"]
  show ?thesis
    by (auto simp: rows l)
qed


end
